theory Spec2Isabelle
  imports Main
begin

section \<open>The DraftEditor controller (src/component/base/DraftEditor.react.js)\<close>

text \<open>
  The component is a JavaScript class whose methods mutate instance fields. Each method
  is a function from the component (\<open>this\<close>) to the component after the call; a
  method that returns a value returns it paired with the component.

  JavaScript's \<open>null\<close> and \<open>undefined\<close> are two different values, and the source
  stores both (\<open>_clipboard\<close> starts as \<open>null\<close>, an absent key of \<open>handlerMap\<close> reads as
  \<open>undefined\<close>), so a Flow type \<open>?T\<close> is the three-way type below. Both are falsy, an
  object is truthy.
\<close>

datatype 'a nullable = Null | Undefined | Obj 'a

text \<open>
  The values a lookup in \<open>handlerMap\<close> can produce: the three handler modules the file
  requires, and, because \<open>handlerMap\<close> is a plain object literal, a member inherited
  from \<open>Object.prototype\<close> when the key names one.
\<close>

datatype handlerRef =
    DraftEditorEditHandler
  | DraftEditorCompositionHandler
  | DraftEditorDragHandler
  | ObjectPrototypeMember string

text \<open>
  What the component lets the outside observe and a claim counts: each run of
  \<open>exitCurrentMode\<close>, and each call of the host's \<open>onChange\<close> prop with its argument.
  The source has no such list; it is kept so that "fires once" can be stated.
\<close>

datatype 'es call = CallExitCurrentMode | CallOnChange 'es

text \<open>
  The instance fields of the constructor (lines 134-138, without the leading underscore,
  which Isabelle names cannot carry), \<open>this.state.containerKey\<close>, the updates given to
  \<open>setState\<close> and not yet committed by React (each the new \<open>containerKey\<close> and the
  argument its callback passes to \<open>_focus\<close>), the two props the methods read, and the
  part of the page \<open>_focus\<close> and \<open>_blur\<close> touch: whether the scroll parent of the editor
  node is \<open>window\<close>, that scroll parent's offset \<open>(x, y)\<close>, and whether the editor
  node has the DOM focus. Counters are JavaScript numbers, exact on integers below
  \<open>2^53\<close>, and are modelled as \<open>int\<close>.
\<close>

record ('es, 'b) DraftEditor =
  blockSelectEvents :: bool
  clipboard :: "'b nullable"
  guardAgainstRender :: bool
  handler :: "handlerRef nullable"
  dragCount :: int
  containerKey :: int
  pendingState :: "(int \<times> (int \<times> int) option) list"
  readOnly :: bool
  editorState :: 'es
  scrollParentIsWindow :: bool
  scrollOffset :: "int \<times> int"
  hasDOMFocus :: bool
  calls :: "'es call list"

subsection \<open>The mode registry\<close>

text \<open>Lines 49-55: the own properties of the object literal, in source order.\<close>

definition handlerMap :: "(string \<times> handlerRef nullable) list" where
  "handlerMap =
    [(''edit'', Obj DraftEditorEditHandler),
     (''composite'', Obj DraftEditorCompositionHandler),
     (''drag'', Obj DraftEditorDragHandler),
     (''cut'', Null),
     (''render'', Null)]"

text \<open>
  The property names of \<open>Object.prototype\<close> (ECMAScript 5.1, 15.2.4, and the legacy
  accessors of Annex B that browsers define).
\<close>

definition objectPrototypeKeys :: "string list" where
  "objectPrototypeKeys =
    [''constructor'', ''toString'', ''toLocaleString'', ''valueOf'', ''hasOwnProperty'',
     ''isPrototypeOf'', ''propertyIsEnumerable'', ''__proto__'', ''__defineGetter__'',
     ''__defineSetter__'', ''__lookupGetter__'', ''__lookupSetter__'']"

text \<open>
  \<open>handlerMap[mode]\<close>: an own property, else the inherited member, else
  \<open>undefined\<close>. No branch throws.
\<close>

definition handlerMap_get :: "string \<Rightarrow> handlerRef nullable" where
  "handlerMap_get mode =
    (case map_of handlerMap mode of
       Some v \<Rightarrow> v
     | None \<Rightarrow>
         if mode \<in> set objectPrototypeKeys then Obj (ObjectPrototypeMember mode)
         else Undefined)"

subsection \<open>Construction and lifecycle\<close>

text \<open>
  The constructor, lines 131-177, given the props and the page. The twenty proxies it
  builds are \<open>buildHandler\<close> at the names of \<open>eventNames\<close>.
\<close>

definition constructor ::
    "bool \<Rightarrow> 'es \<Rightarrow> bool \<Rightarrow> int \<times> int \<Rightarrow> ('es, 'b) DraftEditor" where
  "constructor ro es isWindow offset =
    \<lparr> blockSelectEvents = False,
      clipboard = Null,
      guardAgainstRender = False,
      handler = Null,
      dragCount = 0,
      containerKey = 0,
      pendingState = [],
      readOnly = ro,
      editorState = es,
      scrollParentIsWindow = isWindow,
      scrollOffset = offset,
      hasDOMFocus = False,
      calls = [] \<rparr>"

definition eventNames :: "string list" where
  "eventNames =
    [''onBeforeInput'', ''onBlur'', ''onCharacterData'', ''onCompositionEnd'',
     ''onCompositionStart'', ''onCopy'', ''onCut'', ''onDragEnd'', ''onDragOver'',
     ''onDragStart'', ''onDrop'', ''onInput'', ''onFocus'', ''onKeyDown'', ''onKeyPress'',
     ''onKeyUp'', ''onMouseDown'', ''onMouseUp'', ''onPaste'', ''onSelect'']"

text \<open>Lines 368-370.\<close>

definition setMode :: "string \<Rightarrow> ('es, 'b) DraftEditor \<Rightarrow> ('es, 'b) DraftEditor" where
  "setMode mode this = this\<lparr>handler := handlerMap_get mode\<rparr>"

text \<open>Lines 372-374; the run is recorded before the call of \<open>setMode\<close>.\<close>

definition exitCurrentMode :: "('es, 'b) DraftEditor \<Rightarrow> ('es, 'b) DraftEditor" where
  "exitCurrentMode this =
    setMode ''edit'' (this\<lparr>calls := calls this @ [CallExitCurrentMode]\<rparr>)"

text \<open>
  Lines 287-300. The \<open>document.execCommand\<close> of the Internet Explorer branch touches
  nothing of the component.
\<close>

definition componentDidMount :: "('es, 'b) DraftEditor \<Rightarrow> ('es, 'b) DraftEditor" where
  "componentDidMount this = setMode ''edit'' this"



subsection \<open>Render guard and clipboard\<close>

text \<open>Lines 395-401.\<close>

definition setRenderGuard :: "('es, 'b) DraftEditor \<Rightarrow> ('es, 'b) DraftEditor" where
  "setRenderGuard this = this\<lparr>guardAgainstRender := True\<rparr>"

definition removeRenderGuard :: "('es, 'b) DraftEditor \<Rightarrow> ('es, 'b) DraftEditor" where
  "removeRenderGuard this = this\<lparr>guardAgainstRender := False\<rparr>"

text \<open>Lines 408-419. \<open>getClipboard\<close> returns the payload and the component after the call.\<close>

definition setClipboard ::
    "'b nullable \<Rightarrow> ('es, 'b) DraftEditor \<Rightarrow> ('es, 'b) DraftEditor" where
  "setClipboard payload this = this\<lparr>clipboard := payload\<rparr>"

definition getClipboard ::
    "('es, 'b) DraftEditor \<Rightarrow> 'b nullable \<times> ('es, 'b) DraftEditor" where
  "getClipboard this = (clipboard this, this)"

subsection \<open>Update propagation\<close>

text \<open>
  Lines 430-432: \<open>this.props.onChange(editorState)\<close>. The host's callback is outside
  the component; the call and its argument are recorded.
\<close>

definition update :: "'es \<Rightarrow> ('es, 'b) DraftEditor \<Rightarrow> ('es, 'b) DraftEditor" where
  "update es this = this\<lparr>calls := calls this @ [CallOnChange es]\<rparr>"

subsection \<open>The drag tracker\<close>

text \<open>Lines 439-451.\<close>

definition onDragEnter :: "('es, 'b) DraftEditor \<Rightarrow> ('es, 'b) DraftEditor" where
  "onDragEnter this = this\<lparr>dragCount := dragCount this + 1\<rparr>"

definition onDragLeave :: "('es, 'b) DraftEditor \<Rightarrow> ('es, 'b) DraftEditor" where
  "onDragLeave this =
    (let this' = this\<lparr>dragCount := dragCount this - 1\<rparr>
     in if dragCount this' = 0 then exitCurrentMode this' else this')"

text \<open>A sequence of drag events delivered to the component, in order.\<close>

datatype dragCall = DragEnter | DragLeave

fun dragStep :: "dragCall \<Rightarrow> ('es, 'b) DraftEditor \<Rightarrow> ('es, 'b) DraftEditor" where
  "dragStep DragEnter this = onDragEnter this"
| "dragStep DragLeave this = onDragLeave this"

fun dragCalls :: "dragCall list \<Rightarrow> ('es, 'b) DraftEditor \<Rightarrow> ('es, 'b) DraftEditor" where
  "dragCalls [] this = this"
| "dragCalls (c # cs) this = dragCalls cs (dragStep c this)"

text \<open>How often \<open>exitCurrentMode\<close> has run.\<close>

fun isExit :: "'es call \<Rightarrow> bool" where
  "isExit CallExitCurrentMode = True"
| "isExit (CallOnChange _) = False"

definition exitCount :: "('es, 'b) DraftEditor \<Rightarrow> nat" where
  "exitCount this = length (filter isExit (calls this))"

text \<open>
  The words of the specification about drag sequences, independent of the component:
  the net count of a sequence (enters minus leaves); a sequence is well formed from a
  counter \<open>n\<close> when no prefix takes the counter below zero; it is balanced when it is
  not empty, well formed from zero, and nets to zero. \<open>zeroBlocks\<close> cuts a sequence
  after every call at which the net count of the calls since the last cut is zero; the
  calls after the last cut belong to no block.
\<close>

fun delta :: "dragCall \<Rightarrow> int" where
  "delta DragEnter = 1"
| "delta DragLeave = - 1"

definition net :: "dragCall list \<Rightarrow> int" where
  "net cs = sum_list (map delta cs)"

fun wellFormedFrom :: "int \<Rightarrow> dragCall list \<Rightarrow> bool" where
  "wellFormedFrom n [] = True"
| "wellFormedFrom n (c # cs) = (0 \<le> n + delta c \<and> wellFormedFrom (n + delta c) cs)"




text \<open>
  How often the counter is zero after a call of a sequence that starts at counter \<open>n\<close>.
\<close>

fun zeroReached :: "int \<Rightarrow> dragCall list \<Rightarrow> nat" where
  "zeroReached n [] = 0"
| "zeroReached n (c # cs) =
    (if n + delta c = 0 then 1 else 0) + zeroReached (n + delta c) cs"



subsection \<open>Sequences of mode transitions\<close>

datatype modeCall = SetMode string | ExitCurrentMode

fun modeStep :: "modeCall \<Rightarrow> ('es, 'b) DraftEditor \<Rightarrow> ('es, 'b) DraftEditor" where
  "modeStep (SetMode mode) this = setMode mode this"
| "modeStep ExitCurrentMode this = exitCurrentMode this"

fun modeCalls :: "modeCall list \<Rightarrow> ('es, 'b) DraftEditor \<Rightarrow> ('es, 'b) DraftEditor" where
  "modeCalls [] this = this"
| "modeCalls (c # cs) this = modeCalls cs (modeStep c this)"

text \<open>The mode a call sets, in the specification's reading of \<open>exitCurrentMode\<close>.\<close>

fun modeOf :: "modeCall \<Rightarrow> string" where
  "modeOf (SetMode mode) = mode"
| "modeOf ExitCurrentMode = ''edit''"

subsection \<open>The event dispatcher\<close>

text \<open>
  Lines 184-191. The handler modules are not in this file: \<open>members h name\<close> is the
  function found under \<open>name\<close> on the object \<open>h\<close>, if any. A handler function receives
  the event and the component as \<open>this\<close>, may change the component, and may throw
  (\<open>Inl\<close>); its return value is dropped. \<open>this._handler && ...\<close> stops at a falsy
  handler, \<open>method && ...\<close> at a missing member.
\<close>

definition buildHandler ::
    "(handlerRef \<Rightarrow> string \<Rightarrow> ('e \<Rightarrow> ('es, 'b) DraftEditor \<Rightarrow> 'x + ('es, 'b) DraftEditor) option)
      \<Rightarrow> string \<Rightarrow> 'e \<Rightarrow> ('es, 'b) DraftEditor \<Rightarrow> 'x + ('es, 'b) DraftEditor" where
  "buildHandler members eventName e this =
    (if \<not> readOnly this then
       (case handler this of
          Obj h \<Rightarrow>
            (case members h eventName of
               Some method \<Rightarrow> method e this
             | None \<Rightarrow> Inr this)
        | Null \<Rightarrow> Inr this
        | Undefined \<Rightarrow> Inr this)
     else Inr this)"

subsection \<open>Listeners of the handler modules\<close>

text \<open>
  Modelled from the spec: the handler modules (\<open>DraftEditorEditHandler\<close> and the others,
  required on lines 17-20) are not in this file. Section 4.2 of the specification says
  what a handler operation does to the controller: it calls back into it. A listener
  is therefore the list of calls it makes on \<open>this\<close>, which may depend on the event and
  on the component it finds; a listener that throws is the list of the calls made
  before the throw. The calls are those of the methods that return at once. A listener
  that calls \<open>focus\<close>, \<open>blur\<close> or \<open>restoreEditorDOM\<close> from inside a focus or blur event
  re-enters the browser or React while they are dispatching, and is not covered.
\<close>

datatype ('es, 'b) controllerCall =
    ThisUpdate 'es
  | ThisSetMode string
  | ThisExitCurrentMode
  | ThisSetClipboard "'b nullable"
  | ThisSetRenderGuard
  | ThisRemoveRenderGuard
  | ThisOnDragEnter
  | ThisOnDragLeave

fun runCall :: "('es, 'b) controllerCall \<Rightarrow> ('es, 'b) DraftEditor \<Rightarrow> ('es, 'b) DraftEditor" where
  "runCall (ThisUpdate es) this = update es this"
| "runCall (ThisSetMode mode) this = setMode mode this"
| "runCall ThisExitCurrentMode this = exitCurrentMode this"
| "runCall (ThisSetClipboard payload) this = setClipboard payload this"
| "runCall ThisSetRenderGuard this = setRenderGuard this"
| "runCall ThisRemoveRenderGuard this = removeRenderGuard this"
| "runCall ThisOnDragEnter this = onDragEnter this"
| "runCall ThisOnDragLeave this = onDragLeave this"

fun runCalls ::
    "('es, 'b) controllerCall list \<Rightarrow> ('es, 'b) DraftEditor \<Rightarrow> ('es, 'b) DraftEditor" where
  "runCalls [] this = this"
| "runCalls (c # cs) this = runCalls cs (runCall c this)"

text \<open>
  What \<open>_focus\<close> and \<open>_blur\<close> call and this file does not define: the selection of an
  editor state and its focus flag, \<open>EditorState.forceSelection\<close>, the scroll that the
  browser performs by itself when the editor node receives the focus, the listeners of
  the handler modules by handler and event name, and the event objects the browser
  passes for a focus and for a blur.
\<close>

record ('es, 'sel, 'b, 'e) collaborators =
  getSelection :: "'es \<Rightarrow> 'sel"
  getHasFocus :: "'sel \<Rightarrow> bool"
  forceSelection :: "'es \<Rightarrow> 'sel \<Rightarrow> 'es"
  implicitScroll :: "int \<times> int \<Rightarrow> int \<times> int"
  listeners ::
    "handlerRef \<Rightarrow> string \<Rightarrow> ('e \<Rightarrow> ('es, 'b) DraftEditor \<Rightarrow> ('es, 'b) controllerCall list) option"
  focusEvent :: 'e
  blurEvent :: 'e

text \<open>The listeners as the members \<open>buildHandler\<close> looks up.\<close>

definition listenerMembers ::
    "('es, 'sel, 'b, 'e) collaborators \<Rightarrow> handlerRef \<Rightarrow> string
      \<Rightarrow> ('e \<Rightarrow> ('es, 'b) DraftEditor \<Rightarrow> 'x + ('es, 'b) DraftEditor) option" where
  "listenerMembers env h eventName =
    map_option (\<lambda>listener e this. Inr (runCalls (listener e this) this))
      (listeners env h eventName)"

text \<open>
  The browser delivering an event to the editor node: \<open>render\<close> binds the proxies
  built by \<open>_buildHandler\<close> to the node (lines 247-266, \<open>onFocus={this._onFocus}\<close> on
  line 259, \<open>onBlur={this._onBlur}\<close> on line 248), so the event goes through the
  dispatcher to the active handler. What a listener throws does not reach the code that
  caused the event.
\<close>

definition dispatchEvent ::
    "('es, 'sel, 'b, 'e) collaborators \<Rightarrow> string \<Rightarrow> 'e \<Rightarrow> ('es, 'b) DraftEditor
      \<Rightarrow> ('es, 'b) DraftEditor" where
  "dispatchEvent env eventName e this =
    (case (buildHandler (listenerMembers env) eventName e this
            :: unit + ('es, 'b) DraftEditor) of
       Inr this' \<Rightarrow> this'
     | Inl _ \<Rightarrow> this)"

subsection \<open>Focus and DOM recovery\<close>

text \<open>
  \<open>editorNode.focus()\<close> (line 336), for a mounted editor node. A node that does not
  hold the focus takes it, and the browser delivers the focus event before \<open>focus()\<close>
  returns; a node that holds it already gets no event. The browser then scrolls as it
  sees fit.
\<close>

definition nativeFocus ::
    "('es, 'sel, 'b, 'e) collaborators \<Rightarrow> ('es, 'b) DraftEditor \<Rightarrow> ('es, 'b) DraftEditor" where
  "nativeFocus env this =
    (let focused =
           (if hasDOMFocus this then this
            else dispatchEvent env ''onFocus'' (focusEvent env) (this\<lparr>hasDOMFocus := True\<rparr>))
     in focused\<lparr>scrollOffset := implicitScroll env (scrollOffset focused)\<rparr>)"

text \<open>
  Lines 328-355. \<open>scrollPosition || getScrollPosition(...)\<close> takes the argument when
  one is given. After \<open>editorNode.focus()\<close>, \<open>window.scrollTo(x, y)\<close> sets both
  components of the window's offset, while \<open>Scroll.setTop(scrollParent, y)\<close> sets the
  top of an element and leaves its left offset as it is. Offsets are taken within the
  scrollable range, where the browser does not clip them.
\<close>

definition focus ::
    "('es, 'sel, 'b, 'e) collaborators \<Rightarrow> (int \<times> int) option \<Rightarrow> ('es, 'b) DraftEditor
      \<Rightarrow> ('es, 'b) DraftEditor" where
  "focus env scrollPosition this =
    (let es = editorState this;
         alreadyHasFocus = getHasFocus env (getSelection env es);
         (x, y) = (case scrollPosition of Some p \<Rightarrow> p | None \<Rightarrow> scrollOffset this);
         focused = nativeFocus env this;
         restored =
           (if scrollParentIsWindow focused then focused\<lparr>scrollOffset := (x, y)\<rparr>
            else focused\<lparr>scrollOffset := (fst (scrollOffset focused), y)\<rparr>)
     in if \<not> alreadyHasFocus
        then update (forceSelection env es (getSelection env es)) restored
        else restored)"





section \<open>Properties\<close>

subsection \<open>Clipboard staging\<close>

text \<open>
  C8. For every payload \<open>X\<close>, \<open>null\<close> and \<open>undefined\<close> included,
  \<open>setClipboard(X)\<close> followed by \<open>getClipboard()\<close> returns \<open>X\<close>; after
  \<open>setClipboard(X)\<close> and \<open>setClipboard(Y)\<close> it returns \<open>Y\<close>; and \<open>getClipboard()\<close>
  leaves the component as it was, so that a second read returns the same payload.
\<close>

theorem clipboard_last_write_wins:
  "fst (getClipboard (setClipboard X this)) = X
   \<and> fst (getClipboard (setClipboard Y (setClipboard X this))) = Y
   \<and> snd (getClipboard this) = this
   \<and> fst (getClipboard (snd (getClipboard this))) = fst (getClipboard this)"
  by (simp add: getClipboard_def setClipboard_def)

text \<open>
  C10. \<open>setClipboard\<close>, \<open>setRenderGuard\<close>, \<open>removeRenderGuard\<close> and \<open>setMode\<close> each
  write one field (the staged payload, the render guard, the render guard, the active
  handler) and leave every other field as it was, the drag counter, the remount key and
  the selection-event flag among them; \<open>getClipboard\<close> changes nothing.
\<close>

theorem setters_write_one_field:
  "setClipboard payload this = this\<lparr>clipboard := payload\<rparr>
   \<and> setRenderGuard this = this\<lparr>guardAgainstRender := True\<rparr>
   \<and> removeRenderGuard this = this\<lparr>guardAgainstRender := False\<rparr>
   \<and> setMode mode this = this\<lparr>handler := handlerMap_get mode\<rparr>
   \<and> snd (getClipboard this) = this
   \<and> dragCount (setClipboard payload this) = dragCount this
   \<and> containerKey (setClipboard payload this) = containerKey this
   \<and> blockSelectEvents (setClipboard payload this) = blockSelectEvents this
   \<and> dragCount (setRenderGuard this) = dragCount this
   \<and> containerKey (setRenderGuard this) = containerKey this
   \<and> blockSelectEvents (setRenderGuard this) = blockSelectEvents this
   \<and> dragCount (removeRenderGuard this) = dragCount this
   \<and> containerKey (removeRenderGuard this) = containerKey this
   \<and> blockSelectEvents (removeRenderGuard this) = blockSelectEvents this
   \<and> dragCount (setMode mode this) = dragCount this
   \<and> containerKey (setMode mode this) = containerKey this
   \<and> blockSelectEvents (setMode mode this) = blockSelectEvents this"
  by (simp add: getClipboard_def setClipboard_def setRenderGuard_def removeRenderGuard_def
      setMode_def)

subsection \<open>Mode registry and transitions\<close>

lemma handlerMap_get_closed_set:
  "handlerMap_get ''edit'' = Obj DraftEditorEditHandler"
  "handlerMap_get ''composite'' = Obj DraftEditorCompositionHandler"
  "handlerMap_get ''drag'' = Obj DraftEditorDragHandler"
  "handlerMap_get ''cut'' = Null"
  "handlerMap_get ''render'' = Null"
  by (simp_all add: handlerMap_get_def handlerMap_def)

lemma handler_modeCalls:
  "cs \<noteq> [] \<Longrightarrow> handler (modeCalls cs this) = handlerMap_get (modeOf (last cs))"
proof (induction cs arbitrary: this)
  case Nil
  then show ?case by simp
next
  case (Cons c cs)
  show ?case
  proof (cases cs)
    case Nil
    then show ?thesis by (cases c) (simp_all add: setMode_def exitCurrentMode_def)
  next
    case (Cons d ds)
    then show ?thesis using Cons.IH by simp
  qed
qed

text \<open>
  C4. After any non-empty sequence of \<open>setMode\<close> and \<open>exitCurrentMode\<close> calls the active
  handler is the registry's entry for the mode set last; that entry is the edit,
  composition and drag module for Edit, Composite and Drag and none (\<open>null\<close>) for Cut
  and Render; and \<open>exitCurrentMode\<close> leaves the component exactly as \<open>setMode('edit')\<close>
  does (the record of calls, which only observes, set aside).
\<close>

theorem activeHandler_is_registry_entry:
  "(cs \<noteq> [] \<longrightarrow> handler (modeCalls cs this) = handlerMap_get (modeOf (last cs)))
   \<and> handlerMap_get ''edit'' = Obj DraftEditorEditHandler
   \<and> handlerMap_get ''composite'' = Obj DraftEditorCompositionHandler
   \<and> handlerMap_get ''drag'' = Obj DraftEditorDragHandler
   \<and> handlerMap_get ''cut'' = Null
   \<and> handlerMap_get ''render'' = Null
   \<and> (exitCurrentMode this)\<lparr>calls := calls this\<rparr> = setMode ''edit'' this"
  by (simp add: handler_modeCalls handlerMap_get_closed_set)
     (simp add: exitCurrentMode_def setMode_def)

theorem activeHandler_is_registry_entry_witness:
  "[SetMode ''drag'', ExitCurrentMode, SetMode ''composite'', SetMode ''cut''] \<noteq> []
   \<and> handler (modeCalls [SetMode ''drag'', ExitCurrentMode, SetMode ''composite'', SetMode ''cut'']
        (constructor False () True (0, 0) :: (unit, unit) DraftEditor)) = Null
   \<and> handler (modeCalls [SetMode ''cut'', ExitCurrentMode]
        (constructor False () True (0, 0) :: (unit, unit) DraftEditor))
       = Obj DraftEditorEditHandler"
  using activeHandler_is_registry_entry
      [of "[SetMode ''drag'', ExitCurrentMode, SetMode ''composite'', SetMode ''cut'']"
          "constructor False () True (0, 0) :: (unit, unit) DraftEditor"]
    activeHandler_is_registry_entry
      [of "[SetMode ''cut'', ExitCurrentMode]"
          "constructor False () True (0, 0) :: (unit, unit) DraftEditor"]
  by simp

text \<open>
  C9, as the code has it. \<open>setMode\<close> checks nothing: for a mode identifier that is no
  key of the registry (and names no member of \<open>Object.prototype\<close>) it returns normally
  with the active handler \<open>undefined\<close> and every other field unchanged, and every event
  dispatched afterwards is ignored without an error. Only the Flow type
  \<open>DraftEditorModes\<close> keeps such identifiers out.
\<close>

theorem setMode_unknown_mode:
  "mode \<notin> set (map fst handlerMap) \<Longrightarrow> mode \<notin> set objectPrototypeKeys \<Longrightarrow>
     setMode mode this = this\<lparr>handler := Undefined\<rparr>
     \<and> buildHandler members name e (setMode mode this) = Inr (setMode mode this)"
  by (simp add: setMode_def handlerMap_get_def buildHandler_def
      map_of_eq_None_iff[THEN iffD2] image_iff split: option.split)

theorem setMode_unknown_mode_witness:
  "''bogus'' \<notin> set (map fst handlerMap) \<and> ''bogus'' \<notin> set objectPrototypeKeys
   \<and> setMode ''bogus'' (componentDidMount (constructor False () True (0, 0) :: (unit, unit) DraftEditor))
       = (componentDidMount (constructor False () True (0, 0)))\<lparr>handler := Undefined\<rparr>
   \<and> buildHandler (\<lambda>h n. Some (\<lambda>ev t. Inl ())) ''onKeyDown'' (0 :: nat)
        (setMode ''bogus'' (componentDidMount (constructor False () True (0, 0) :: (unit, unit) DraftEditor)))
       = Inr (setMode ''bogus'' (componentDidMount (constructor False () True (0, 0))))"
proof -
  have k: "''bogus'' \<notin> set (map fst handlerMap)"
    by (simp add: handlerMap_def)
  have p: "''bogus'' \<notin> set objectPrototypeKeys"
    by (simp add: objectPrototypeKeys_def)
  note u = setMode_unknown_mode [OF k p,
      of "componentDidMount (constructor False () True (0, 0) :: (unit, unit) DraftEditor)"
         "\<lambda>h n. Some (\<lambda>ev t. Inl ())" "''onKeyDown''" "0 :: nat"]
  from k p u show ?thesis by blast
qed

text \<open>
  C9 as stated fails: \<open>setMode('bogus')\<close> on a mounted editor is an ordinary
  transition. It returns the component with the handler \<open>undefined\<close>, and a key-down
  event dispatched next returns normally, although every handler function here throws.
\<close>

theorem setMode_unknown_counterexample:
  "''bogus'' \<notin> set (map fst handlerMap)
   \<and> handler (setMode ''bogus''
        (componentDidMount (constructor False () True (0, 0) :: (unit, unit) DraftEditor)))
       = Undefined
   \<and> buildHandler (\<lambda>h n. Some (\<lambda>ev t. Inl ())) ''onKeyDown'' (0 :: nat)
        (setMode ''bogus'' (componentDidMount (constructor False () True (0, 0) :: (unit, unit) DraftEditor)))
       = Inr ((componentDidMount (constructor False () True (0, 0)))\<lparr>handler := Undefined\<rparr>)"
  by (simp add: setMode_def componentDidMount_def handlerMap_get_def handlerMap_def
      objectPrototypeKeys_def buildHandler_def constructor_def)

subsection \<open>Event dispatch\<close>

text \<open>
  C2. A callback built by \<open>_buildHandler\<close> does nothing when the surface is read-only.
  Otherwise, when the active handler has a function under the event's name, the
  callback is exactly that function applied to the raw event with the component as
  \<open>this\<close>; when no handler is active (\<open>null\<close> or \<open>undefined\<close>) or the handler has no
  such function, the callback returns normally and changes nothing.
\<close>

theorem dispatch_to_active_handler:
  "(readOnly this \<longrightarrow> buildHandler members name e this = Inr this)
   \<and> (\<not> readOnly this \<and> handler this = Obj h \<and> members h name = Some method
        \<longrightarrow> buildHandler members name e this = method e this)
   \<and> (\<not> readOnly this \<and> (handler this = Null \<or> handler this = Undefined
          \<or> (handler this = Obj h \<and> members h name = None))
        \<longrightarrow> buildHandler members name e this = Inr this)"
  by (auto simp: buildHandler_def)

theorem dispatch_to_active_handler_witness:
  "buildHandler
      (\<lambda>h n. if h = DraftEditorEditHandler \<and> n = ''onCut''
              then Some (\<lambda>ev t. Inr (setClipboard (Obj ev) t)) else None)
      ''onCut'' (7 :: nat)
      (componentDidMount (constructor True () True (0, 0) :: (unit, nat) DraftEditor))
     = (Inr (componentDidMount (constructor True () True (0, 0))) :: unit + (unit, nat) DraftEditor)
   \<and> buildHandler
      (\<lambda>h n. if h = DraftEditorEditHandler \<and> n = ''onCut''
              then Some (\<lambda>ev t. Inr (setClipboard (Obj ev) t)) else None)
      ''onCut'' (7 :: nat)
      (componentDidMount (constructor False () True (0, 0) :: (unit, nat) DraftEditor))
     = (Inr (setClipboard (Obj 7) (componentDidMount (constructor False () True (0, 0))))
         :: unit + (unit, nat) DraftEditor)
   \<and> buildHandler
      (\<lambda>h n. if h = DraftEditorEditHandler \<and> n = ''onCut''
              then Some (\<lambda>ev t. Inr (setClipboard (Obj ev) t)) else None)
      ''onKeyDown'' (7 :: nat)
      (componentDidMount (constructor False () True (0, 0) :: (unit, nat) DraftEditor))
     = (Inr (componentDidMount (constructor False () True (0, 0))) :: unit + (unit, nat) DraftEditor)
   \<and> buildHandler
      (\<lambda>h n. if h = DraftEditorEditHandler \<and> n = ''onCut''
              then Some (\<lambda>ev t. Inr (setClipboard (Obj ev) t)) else None)
      ''onCut'' (7 :: nat)
      (setMode ''cut'' (constructor False () True (0, 0) :: (unit, nat) DraftEditor))
     = (Inr (setMode ''cut'' (constructor False () True (0, 0))) :: unit + (unit, nat) DraftEditor)"
  using
    dispatch_to_active_handler
      [of "componentDidMount (constructor True () True (0, 0) :: (unit, nat) DraftEditor)"
          "\<lambda>h n. if h = DraftEditorEditHandler \<and> n = ''onCut''
                  then Some (\<lambda>ev t. (Inr (setClipboard (Obj ev) t) :: unit + (unit, nat) DraftEditor))
                  else None"
          "''onCut''" "7 :: nat" DraftEditorEditHandler
          "\<lambda>ev t. Inr (setClipboard (Obj ev) t)"]
    dispatch_to_active_handler
      [of "componentDidMount (constructor False () True (0, 0) :: (unit, nat) DraftEditor)"
          "\<lambda>h n. if h = DraftEditorEditHandler \<and> n = ''onCut''
                  then Some (\<lambda>ev t. (Inr (setClipboard (Obj ev) t) :: unit + (unit, nat) DraftEditor))
                  else None"
          "''onCut''" "7 :: nat" DraftEditorEditHandler
          "\<lambda>ev t. Inr (setClipboard (Obj ev) t)"]
    dispatch_to_active_handler
      [of "componentDidMount (constructor False () True (0, 0) :: (unit, nat) DraftEditor)"
          "\<lambda>h n. if h = DraftEditorEditHandler \<and> n = ''onCut''
                  then Some (\<lambda>ev t. (Inr (setClipboard (Obj ev) t) :: unit + (unit, nat) DraftEditor))
                  else None"
          "''onKeyDown''" "7 :: nat" DraftEditorEditHandler
          "\<lambda>ev t. Inr (setClipboard (Obj ev) t)"]
    dispatch_to_active_handler
      [of "setMode ''cut'' (constructor False () True (0, 0) :: (unit, nat) DraftEditor)"
          "\<lambda>h n. if h = DraftEditorEditHandler \<and> n = ''onCut''
                  then Some (\<lambda>ev t. (Inr (setClipboard (Obj ev) t) :: unit + (unit, nat) DraftEditor))
                  else None"
          "''onCut''" "7 :: nat" DraftEditorEditHandler
          "\<lambda>ev t. Inr (setClipboard (Obj ev) t)"]
  by (simp add: componentDidMount_def setMode_def constructor_def handlerMap_get_def
      handlerMap_def)

subsection \<open>Listeners and event delivery\<close>

lemma runCall_frame:
  "containerKey (runCall c t) = containerKey t"
  "pendingState (runCall c t) = pendingState t"
  "scrollOffset (runCall c t) = scrollOffset t"
  "scrollParentIsWindow (runCall c t) = scrollParentIsWindow t"
  "editorState (runCall c t) = editorState t"
  by (cases c;
      simp add: update_def setMode_def exitCurrentMode_def setClipboard_def
        setRenderGuard_def removeRenderGuard_def onDragEnter_def onDragLeave_def Let_def)+

lemma runCalls_frame:
  "containerKey (runCalls cs t) = containerKey t"
  "pendingState (runCalls cs t) = pendingState t"
  "scrollOffset (runCalls cs t) = scrollOffset t"
  "scrollParentIsWindow (runCalls cs t) = scrollParentIsWindow t"
  "editorState (runCalls cs t) = editorState t"
  by (induction cs arbitrary: t) (simp_all add: runCall_frame)

lemma runCall_calls: "\<exists>ys. calls (runCall c t) = calls t @ ys"
  by (cases c)
     (simp_all add: update_def setMode_def exitCurrentMode_def setClipboard_def
        setRenderGuard_def removeRenderGuard_def onDragEnter_def onDragLeave_def Let_def)

lemma runCalls_calls: "\<exists>ys. calls (runCalls cs t) = calls t @ ys"
proof (induction cs arbitrary: t)
  case Nil
  then show ?case by simp
next
  case (Cons c cs)
  obtain ys where ys: "calls (runCall c t) = calls t @ ys"
    using runCall_calls by blast
  obtain zs where "calls (runCalls cs (runCall c t)) = calls (runCall c t) @ zs"
    using Cons.IH by blast
  with ys show ?case by simp
qed

lemma dispatchEvent_unfold:
  "dispatchEvent env eventName e t =
     (if readOnly t then t
      else case handler t of
             Obj h \<Rightarrow>
               (case listeners env h eventName of
                  Some listener \<Rightarrow> runCalls (listener e t) t
                | None \<Rightarrow> t)
           | Null \<Rightarrow> t
           | Undefined \<Rightarrow> t)"
  by (simp add: dispatchEvent_def buildHandler_def listenerMembers_def
      split: nullable.split option.split)

lemma dispatchEvent_frame:
  "containerKey (dispatchEvent env eventName e t) = containerKey t"
  "pendingState (dispatchEvent env eventName e t) = pendingState t"
  "scrollOffset (dispatchEvent env eventName e t) = scrollOffset t"
  "scrollParentIsWindow (dispatchEvent env eventName e t) = scrollParentIsWindow t"
  "editorState (dispatchEvent env eventName e t) = editorState t"
  by (simp_all add: dispatchEvent_unfold runCalls_frame split: nullable.split option.split)

lemma dispatchEvent_calls: "\<exists>ys. calls (dispatchEvent env eventName e t) = calls t @ ys"
  using runCalls_calls
  by (auto simp: dispatchEvent_unfold split: nullable.split option.split)

subsection \<open>Focus\<close>

lemma nativeFocus_frame:
  "containerKey (nativeFocus env t) = containerKey t"
  "pendingState (nativeFocus env t) = pendingState t"
  "scrollParentIsWindow (nativeFocus env t) = scrollParentIsWindow t"
  "editorState (nativeFocus env t) = editorState t"
  "scrollOffset (nativeFocus env t) = implicitScroll env (scrollOffset t)"
  by (simp_all add: nativeFocus_def Let_def dispatchEvent_frame)

lemma nativeFocus_calls_prefix:
  "take (length (calls t)) (calls (nativeFocus env t)) = calls t"
proof -
  obtain ys where
    "calls (dispatchEvent env ''onFocus'' (focusEvent env) (t\<lparr>hasDOMFocus := True\<rparr>))
       = calls (t\<lparr>hasDOMFocus := True\<rparr>) @ ys"
    using dispatchEvent_calls
      [of env "''onFocus''" "focusEvent env" "t\<lparr>hasDOMFocus := True\<rparr>"]
    by (elim exE)
  then show ?thesis by (simp add: nativeFocus_def Let_def)
qed

lemma nativeFocus_calls_idle:
  assumes "readOnly t \<or> hasDOMFocus t \<or> handler t = Null \<or> handler t = Undefined
     \<or> (handler t = Obj h \<and> listeners env h ''onFocus'' = None)"
  shows "calls (nativeFocus env t) = calls t"
  using assms by (auto simp: nativeFocus_def Let_def dispatchEvent_unfold)

lemma nativeFocus_calls_listener:
  assumes "\<not> readOnly t" "\<not> hasDOMFocus t" "handler t = Obj h"
    "listeners env h ''onFocus'' = Some listener"
  shows "calls (nativeFocus env t) =
     calls (runCalls (listener (focusEvent env) (t\<lparr>hasDOMFocus := True\<rparr>))
              (t\<lparr>hasDOMFocus := True\<rparr>))"
  using assms by (simp add: nativeFocus_def Let_def dispatchEvent_unfold)

lemma focus_calls:
  "calls (focus env scrollPosition this) =
     calls (nativeFocus env this) @
       (if getHasFocus env (getSelection env (editorState this)) then []
        else [CallOnChange (forceSelection env (editorState this)
                (getSelection env (editorState this)))])"
  by (simp add: focus_def update_def Let_def split: prod.split)




text \<open>
  Where \<open>_focus\<close> leaves the scroll parent: at the resolved offset when the scroll parent
  is the window; for an element, at the resolved top, with the left offset wherever
  the browser's own scroll on focus put it.
\<close>

lemma focus_scrollOffset:
  "scrollOffset (focus env scrollPosition this) =
     (let resolved = (case scrollPosition of Some p \<Rightarrow> p | None \<Rightarrow> scrollOffset this)
      in if scrollParentIsWindow this then resolved
         else (fst (implicitScroll env (scrollOffset this)), snd resolved))"
  by (simp add: focus_def update_def Let_def nativeFocus_frame split: prod.split)

text \<open>
  C6, as the code has it. The body of \<open>focus\<close> calls \<open>update\<close> (that is, the host's
  \<open>onChange\<close>) exactly once, with \<open>EditorState.forceSelection\<close> of the editor state and
  its current selection, when that selection did not report focus, and not at all when
  it did; that call is the last thing \<open>focus\<close> does. Before it, the native focus request
  delivers a focus event to the \<open>onFocus\<close> listener of the active handler when the
  surface is not read-only and the editor node did not hold the focus, and the calls
  that listener makes come first. When the surface is read-only, the node holds the
  focus already, no handler is active or the active handler has no \<open>onFocus\<close>, the
  native request adds no call, and the update of the body is the only one.
\<close>

theorem focus_updates_once_after_listener:
  "calls (focus env scrollPosition this) =
     calls (nativeFocus env this) @
       (if getHasFocus env (getSelection env (editorState this)) then []
        else [CallOnChange (forceSelection env (editorState this)
                (getSelection env (editorState this)))])
   \<and> take (length (calls this)) (calls (nativeFocus env this)) = calls this
   \<and> (readOnly this \<or> hasDOMFocus this \<or> handler this = Null \<or> handler this = Undefined
        \<or> (handler this = Obj h \<and> listeners env h ''onFocus'' = None)
       \<longrightarrow> calls (focus env scrollPosition this) =
             calls this @
               (if getHasFocus env (getSelection env (editorState this)) then []
                else [CallOnChange (forceSelection env (editorState this)
                        (getSelection env (editorState this)))]))
   \<and> (\<not> readOnly this \<and> \<not> hasDOMFocus this \<and> handler this = Obj h
        \<and> listeners env h ''onFocus'' = Some listener
       \<longrightarrow> calls (nativeFocus env this) =
             calls (runCalls (listener (focusEvent env) (this\<lparr>hasDOMFocus := True\<rparr>))
                      (this\<lparr>hasDOMFocus := True\<rparr>)))"
proof -
  have idle: "calls (nativeFocus env this) = calls this"
    if "readOnly this \<or> hasDOMFocus this \<or> handler this = Null \<or> handler this = Undefined
        \<or> (handler this = Obj h \<and> listeners env h ''onFocus'' = None)"
    using that by (rule nativeFocus_calls_idle)
  have heard: "calls (nativeFocus env this) =
      calls (runCalls (listener (focusEvent env) (this\<lparr>hasDOMFocus := True\<rparr>))
               (this\<lparr>hasDOMFocus := True\<rparr>))"
    if "\<not> readOnly this" "\<not> hasDOMFocus this" "handler this = Obj h"
      "listeners env h ''onFocus'' = Some listener"
    using that by (rule nativeFocus_calls_listener)
  show ?thesis
    using idle heard by (simp add: focus_calls nativeFocus_calls_prefix)
qed

theorem focus_updates_once_after_listener_witness:
  "readOnly (componentDidMount (constructor True (False, False) True (0, 40) :: (bool \<times> bool, unit) DraftEditor))
   \<and> calls (focus \<lparr>getSelection = fst, getHasFocus = (\<lambda>sel. sel),
        forceSelection = (\<lambda>es sel. (True, True)), implicitScroll = (\<lambda>p. (0, 0)),
        listeners = (\<lambda>h n. if h = DraftEditorEditHandler \<and> n = ''onFocus''
           then Some (\<lambda>ev t. if fst (editorState t) then []
                              else [ThisUpdate (True, snd (editorState t))])
           else None),
        focusEvent = (), blurEvent = ()\<rparr> None (componentDidMount (constructor True (False, False) True (0, 40) :: (bool \<times> bool, unit) DraftEditor))) = [CallOnChange (True, True)]
   \<and> \<not> readOnly (componentDidMount (constructor False (False, False) True (0, 40) :: (bool \<times> bool, unit) DraftEditor))
   \<and> \<not> hasDOMFocus (componentDidMount (constructor False (False, False) True (0, 40) :: (bool \<times> bool, unit) DraftEditor))
   \<and> handler (componentDidMount (constructor False (False, False) True (0, 40) :: (bool \<times> bool, unit) DraftEditor)) = Obj DraftEditorEditHandler
   \<and> calls (nativeFocus \<lparr>getSelection = fst, getHasFocus = (\<lambda>sel. sel),
        forceSelection = (\<lambda>es sel. (True, True)), implicitScroll = (\<lambda>p. (0, 0)),
        listeners = (\<lambda>h n. if h = DraftEditorEditHandler \<and> n = ''onFocus''
           then Some (\<lambda>ev t. if fst (editorState t) then []
                              else [ThisUpdate (True, snd (editorState t))])
           else None),
        focusEvent = (), blurEvent = ()\<rparr> (componentDidMount (constructor False (False, False) True (0, 40) :: (bool \<times> bool, unit) DraftEditor))) = [CallOnChange (True, False)]
   \<and> calls (focus \<lparr>getSelection = fst, getHasFocus = (\<lambda>sel. sel),
        forceSelection = (\<lambda>es sel. (True, True)), implicitScroll = (\<lambda>p. (0, 0)),
        listeners = (\<lambda>h n. if h = DraftEditorEditHandler \<and> n = ''onFocus''
           then Some (\<lambda>ev t. if fst (editorState t) then []
                              else [ThisUpdate (True, snd (editorState t))])
           else None),
        focusEvent = (), blurEvent = ()\<rparr> None (componentDidMount (constructor False (False, False) True (0, 40) :: (bool \<times> bool, unit) DraftEditor)))
       = [CallOnChange (True, False), CallOnChange (True, True)]"
proof -
  let ?env = "\<lparr>getSelection = fst, getHasFocus = (\<lambda>sel. sel),
        forceSelection = (\<lambda>es sel. (True, True)), implicitScroll = (\<lambda>p. (0, 0)),
        listeners = (\<lambda>h n. if h = DraftEditorEditHandler \<and> n = ''onFocus''
           then Some (\<lambda>ev t. if fst (editorState t) then []
                              else [ThisUpdate (True, snd (editorState t))])
           else None),
        focusEvent = (), blurEvent = ()\<rparr> :: (bool \<times> bool, bool, unit, unit) collaborators"
  let ?ro = "componentDidMount (constructor True (False, False) True (0, 40) :: (bool \<times> bool, unit) DraftEditor)"
  let ?ed = "componentDidMount (constructor False (False, False) True (0, 40) :: (bool \<times> bool, unit) DraftEditor)"
  let ?listener = "\<lambda>(ev :: unit) (t :: (bool \<times> bool, unit) DraftEditor).
      if fst (editorState t) then [] else [ThisUpdate (True, snd (editorState t))]"
  note r = focus_updates_once_after_listener
      [of ?env None ?ro DraftEditorEditHandler ?listener]
  note t = focus_updates_once_after_listener
      [of ?env None ?ed DraftEditorEditHandler ?listener]
  have ro: "readOnly ?ro" "calls ?ro = []" "editorState ?ro = (False, False)"
    by (simp_all add: componentDidMount_def setMode_def constructor_def)
  have ed: "\<not> readOnly ?ed" "\<not> hasDOMFocus ?ed" "handler ?ed = Obj DraftEditorEditHandler"
    "editorState ?ed = (False, False)"
    by (simp_all add: componentDidMount_def setMode_def constructor_def
        handlerMap_get_closed_set)
  have l: "listeners ?env DraftEditorEditHandler ''onFocus'' = Some ?listener"
    by simp
  have "calls (focus ?env None ?ro) =
      calls ?ro @
        (if getHasFocus ?env (getSelection ?env (editorState ?ro)) then []
         else [CallOnChange (forceSelection ?env (editorState ?ro)
                 (getSelection ?env (editorState ?ro)))])"
    using r ro(1) by blast
  then have a: "calls (focus ?env None ?ro) = [CallOnChange (True, True)]"
    by (simp add: ro)
  have "calls (nativeFocus ?env ?ed) =
      calls (runCalls (?listener (focusEvent ?env) (?ed\<lparr>hasDOMFocus := True\<rparr>))
               (?ed\<lparr>hasDOMFocus := True\<rparr>))"
    using t ed(1,2,3) l by blast
  then have b: "calls (nativeFocus ?env ?ed) = [CallOnChange (True, False)]"
    by (simp add: ed update_def) (simp add: componentDidMount_def setMode_def constructor_def)
  have "calls (focus ?env None ?ed) =
      calls (nativeFocus ?env ?ed) @
        (if getHasFocus ?env (getSelection ?env (editorState ?ed)) then []
         else [CallOnChange (forceSelection ?env (editorState ?ed)
                 (getSelection ?env (editorState ?ed)))])"
    using t by blast
  then have c: "calls (focus ?env None ?ed)
      = [CallOnChange (True, False), CallOnChange (True, True)]"
    by (simp add: b ed)
  from ro(1) a ed(1,2,3) b c show ?thesis
    by blast
qed

text \<open>
  C6 as stated fails on a mounted, editable editor in edit mode whose selection does
  not report focus and whose edit handler answers the focus event, as the edit handler
  of the repository does, with one \<open>update\<close> of its own: one \<open>focus()\<close> makes two
  \<open>update\<close> calls, the listener's and then the force-selection.
\<close>

theorem focus_two_updates_counterexample:
  "\<not> getHasFocus \<lparr>getSelection = fst, getHasFocus = (\<lambda>sel. sel),
        forceSelection = (\<lambda>es sel. (True, True)), implicitScroll = (\<lambda>p. (0, 0)),
        listeners = (\<lambda>h n. if h = DraftEditorEditHandler \<and> n = ''onFocus''
           then Some (\<lambda>ev t. if fst (editorState t) then []
                              else [ThisUpdate (True, snd (editorState t))])
           else None),
        focusEvent = (), blurEvent = ()\<rparr> (getSelection \<lparr>getSelection = fst, getHasFocus = (\<lambda>sel. sel),
        forceSelection = (\<lambda>es sel. (True, True)), implicitScroll = (\<lambda>p. (0, 0)),
        listeners = (\<lambda>h n. if h = DraftEditorEditHandler \<and> n = ''onFocus''
           then Some (\<lambda>ev t. if fst (editorState t) then []
                              else [ThisUpdate (True, snd (editorState t))])
           else None),
        focusEvent = (), blurEvent = ()\<rparr> (editorState (componentDidMount (constructor False (False, False) True (0, 40) :: (bool \<times> bool, unit) DraftEditor))))
   \<and> calls (componentDidMount (constructor False (False, False) True (0, 40) :: (bool \<times> bool, unit) DraftEditor)) = []
   \<and> calls (focus \<lparr>getSelection = fst, getHasFocus = (\<lambda>sel. sel),
        forceSelection = (\<lambda>es sel. (True, True)), implicitScroll = (\<lambda>p. (0, 0)),
        listeners = (\<lambda>h n. if h = DraftEditorEditHandler \<and> n = ''onFocus''
           then Some (\<lambda>ev t. if fst (editorState t) then []
                              else [ThisUpdate (True, snd (editorState t))])
           else None),
        focusEvent = (), blurEvent = ()\<rparr> None (componentDidMount (constructor False (False, False) True (0, 40) :: (bool \<times> bool, unit) DraftEditor)))
       = [CallOnChange (True, False), CallOnChange (True, True)]
   \<and> length (calls (focus \<lparr>getSelection = fst, getHasFocus = (\<lambda>sel. sel),
        forceSelection = (\<lambda>es sel. (True, True)), implicitScroll = (\<lambda>p. (0, 0)),
        listeners = (\<lambda>h n. if h = DraftEditorEditHandler \<and> n = ''onFocus''
           then Some (\<lambda>ev t. if fst (editorState t) then []
                              else [ThisUpdate (True, snd (editorState t))])
           else None),
        focusEvent = (), blurEvent = ()\<rparr> None (componentDidMount (constructor False (False, False) True (0, 40) :: (bool \<times> bool, unit) DraftEditor)))) = 2"
  by (simp add: focus_calls nativeFocus_def dispatchEvent_unfold Let_def update_def
      componentDidMount_def setMode_def constructor_def handlerMap_get_closed_set)

text \<open>
  C7 at an input where the code departs from it. The editor is mounted, its scroll
  parent is an element at offset \<open>(5, 10)\<close>, no scroll position is passed, and the
  browser scrolls the element to \<open>(0, 0)\<close> when the editor node takes the focus. The
  resolved offset is \<open>(5, 10)\<close>; \<open>Scroll.setTop\<close> restores the top only, and the
  element ends at \<open>(0, 10)\<close>.
\<close>

theorem focus_element_left_offset_not_restored:
  "scrollOffset (focus \<lparr>getSelection = (\<lambda>es. es), getHasFocus = (\<lambda>sel. sel),
          forceSelection = (\<lambda>es sel. True), implicitScroll = (\<lambda>p. (0, 0)),
          listeners = (\<lambda>h n. if h = DraftEditorEditHandler \<and> n = ''onFocus''
             then Some (\<lambda>ev t. if editorState t then [] else [ThisUpdate True])
             else None),
          focusEvent = (), blurEvent = ()\<rparr> None
      (componentDidMount (constructor False True False (5, 10) :: (bool, unit) DraftEditor))) = (0, 10)
   \<and> scrollOffset (focus \<lparr>getSelection = (\<lambda>es. es), getHasFocus = (\<lambda>sel. sel),
          forceSelection = (\<lambda>es sel. True), implicitScroll = (\<lambda>p. (0, 0)),
          listeners = (\<lambda>h n. if h = DraftEditorEditHandler \<and> n = ''onFocus''
             then Some (\<lambda>ev t. if editorState t then [] else [ThisUpdate True])
             else None),
          focusEvent = (), blurEvent = ()\<rparr> None
      (componentDidMount (constructor False True False (5, 10) :: (bool, unit) DraftEditor))) \<noteq> (5, 10)"
  by (simp add: focus_scrollOffset componentDidMount_def setMode_def constructor_def)

subsection \<open>DOM recovery\<close>














subsection \<open>The drag tracker\<close>

lemma net_Nil [simp]: "net [] = 0"
  by (simp add: net_def)

lemma net_Cons [simp]: "net (c # cs) = delta c + net cs"
  by (simp add: net_def)

lemma net_append [simp]: "net (xs @ ys) = net xs + net ys"
  by (simp add: net_def)

lemma dragStep_dragCount: "dragCount (dragStep c t) = dragCount t + delta c"
  by (cases c) (simp_all add: onDragEnter_def onDragLeave_def exitCurrentMode_def setMode_def Let_def)

lemma onDragEnter_exitCount: "exitCount (onDragEnter t) = exitCount t"
  by (simp add: onDragEnter_def exitCount_def)

lemma onDragLeave_exitCount:
  "exitCount (onDragLeave t) = exitCount t + (if dragCount t = 1 then 1 else 0)"
  by (simp add: onDragLeave_def exitCurrentMode_def setMode_def exitCount_def Let_def)

lemma dragStep_exitCount:
  "exitCount (dragStep c t) =
     exitCount t + (if c = DragLeave \<and> dragCount t = 1 then 1 else 0)"
  by (cases c)
     (simp_all add: onDragEnter_def onDragLeave_def exitCurrentMode_def setMode_def
        exitCount_def Let_def)

lemma dragCalls_dragCount: "dragCount (dragCalls cs t) = dragCount t + net cs"
  by (induction cs arbitrary: t) (simp_all add: dragStep_dragCount)

lemma dragCalls_append: "dragCalls (xs @ ys) t = dragCalls ys (dragCalls xs t)"
  by (induction xs arbitrary: t) simp_all

lemma wellFormedFrom_append:
  "wellFormedFrom n (xs @ ys) = (wellFormedFrom n xs \<and> wellFormedFrom (n + net xs) ys)"
  by (induction xs arbitrary: n) (auto simp: algebra_simps)



lemma wellFormedFrom_net: "wellFormedFrom n cs \<Longrightarrow> 0 \<le> n \<Longrightarrow> 0 \<le> n + net cs"
proof (induction cs arbitrary: n)
  case Nil
  then show ?case by simp
next
  case (Cons c cs)
  then have "0 \<le> (n + delta c) + net cs" by simp
  then show ?case by (simp add: add.assoc)
qed




lemma wellFormedFrom_take: "wellFormedFrom n cs \<Longrightarrow> wellFormedFrom n (take k cs)"
  by (metis append_take_drop_id wellFormedFrom_append)

lemma exits_le_zeroReached:
  "exitCount (dragCalls cs t) \<le> exitCount t + zeroReached (dragCount t) cs"
proof (induction cs arbitrary: t)
  case Nil
  then show ?case by simp
next
  case (Cons c cs)
  have "exitCount (dragStep c t) \<le> exitCount t + (if dragCount t + delta c = 0 then 1 else 0)"
    using dragStep_exitCount[of c t] by (cases c) auto
  with Cons.IH[of "dragStep c t"] show ?case
    by (simp add: dragStep_dragCount)
qed




text \<open>
  C1, as the code has it. Nothing clamps the counter: after any sequence of calls it is
  the counter before plus enters minus leaves, so a leave without an enter takes it
  below zero. It stays at or above zero along a sequence that starts at or above zero
  and is well formed (no prefix with more leaves than the counter and the enters
  allow). \<open>onDragEnter\<close> never runs \<open>exitCurrentMode\<close>; \<open>onDragLeave\<close> runs it once when
  the counter it leaves is zero and not otherwise; so along any sequence it runs at
  most once for each call after which the counter is zero.
\<close>

theorem dragCount_is_not_clamped:
  "dragCount (dragCalls cs this) = dragCount this + net cs
   \<and> (0 \<le> dragCount this \<and> wellFormedFrom (dragCount this) cs
        \<longrightarrow> 0 \<le> dragCount (dragCalls (take k cs) this))
   \<and> exitCount (onDragEnter this) = exitCount this
   \<and> exitCount (onDragLeave this)
        = exitCount this + (if dragCount (onDragLeave this) = 0 then 1 else 0)
   \<and> exitCount (dragCalls cs this) \<le> exitCount this + zeroReached (dragCount this) cs"
proof -
  have "0 \<le> dragCount (dragCalls (take k cs) this)"
    if "0 \<le> dragCount this" "wellFormedFrom (dragCount this) cs"
    using wellFormedFrom_net[OF wellFormedFrom_take[OF that(2)] that(1), of k]
    by (simp add: dragCalls_dragCount)
  moreover have "dragCount (onDragLeave this) = dragCount this - 1"
    using dragStep_dragCount[of DragLeave this] by simp
  ultimately show ?thesis
    by (simp add: dragCalls_dragCount onDragEnter_exitCount onDragLeave_exitCount
        exits_le_zeroReached)
qed

theorem dragCount_is_not_clamped_witness:
  "0 \<le> dragCount (componentDidMount (constructor False () True (0, 0) :: (unit, unit) DraftEditor))
   \<and> wellFormedFrom (dragCount (componentDidMount (constructor False () True (0, 0) :: (unit, unit) DraftEditor)))
        [DragEnter, DragLeave, DragEnter, DragEnter, DragLeave, DragLeave]
   \<and> 0 \<le> dragCount (dragCalls (take 5 [DragEnter, DragLeave, DragEnter, DragEnter, DragLeave, DragLeave])
        (componentDidMount (constructor False () True (0, 0) :: (unit, unit) DraftEditor)))
   \<and> dragCount (dragCalls [DragEnter, DragLeave, DragEnter, DragEnter, DragLeave, DragLeave]
        (componentDidMount (constructor False () True (0, 0) :: (unit, unit) DraftEditor))) = 0
   \<and> exitCount (dragCalls [DragEnter, DragLeave, DragEnter, DragEnter, DragLeave, DragLeave]
        (componentDidMount (constructor False () True (0, 0) :: (unit, unit) DraftEditor))) \<le> 2"
proof -
  let ?c = "componentDidMount (constructor False () True (0, 0) :: (unit, unit) DraftEditor)"
  let ?cs = "[DragEnter, DragLeave, DragEnter, DragEnter, DragLeave, DragLeave]"
  note t = dragCount_is_not_clamped [of ?cs ?c 5]
  have z: "dragCount ?c = 0" "exitCount ?c = 0"
    by (simp_all add: componentDidMount_def setMode_def constructor_def exitCount_def)
  have h1: "0 \<le> dragCount ?c"
    by (simp add: z)
  have h2: "wellFormedFrom (dragCount ?c) ?cs"
    by (simp add: z)
  have a: "0 \<le> dragCount (dragCalls (take 5 ?cs) ?c)"
    using t h1 h2 by blast
  have "dragCount (dragCalls ?cs ?c) = dragCount ?c + net ?cs"
    using t by blast
  then have b: "dragCount (dragCalls ?cs ?c) = 0"
    by (simp add: z)
  have "exitCount (dragCalls ?cs ?c) \<le> exitCount ?c + zeroReached (dragCount ?c) ?cs"
    using t by blast
  then have c: "exitCount (dragCalls ?cs ?c) \<le> 2"
    by (simp add: z)
  from h1 h2 a b c show ?thesis
    by blast
qed

text \<open>
  C1 as stated fails: on a freshly constructed component one \<open>onDragLeave\<close> takes the
  counter from 0 to -1.
\<close>

theorem dragCount_underflow_counterexample:
  "dragCount (constructor False () True (0, 0) :: (unit, unit) DraftEditor) = 0
   \<and> dragCount (onDragLeave (constructor False () True (0, 0) :: (unit, unit) DraftEditor)) = - 1
   \<and> \<not> 0 \<le> dragCount (onDragLeave (constructor False () True (0, 0) :: (unit, unit) DraftEditor))"
  by (simp add: onDragLeave_def constructor_def Let_def)



end
